theory Spec2Isabelle
  imports Main
begin

section \<open>JavaScript strings and arrays\<close>

text \<open>
  The component of \<^verbatim>\<open>src/components/Terminal.jsx\<close> works on JavaScript strings. A string
  is modelled as a \<^typ>\<open>string\<close>, one \<^typ>\<open>char\<close> per code unit, so the model covers the
  strings whose code units lie in the range 0 to 255 (ASCII and Latin-1). On that range
  \<^verbatim>\<open>String.prototype.toLowerCase\<close> maps A to Z and the letters 0xC0 to 0xDE (0xD7, the
  multiplication sign, apart) to the code unit 32 higher, which is the same code unit with
  the bit of weight 32 set; \<^verbatim>\<open>String.prototype.trim\<close> removes, on both ends, the code units
  9 to 13, 32 and 160.
\<close>

definition isUpper :: "char \<Rightarrow> bool" where
  "isUpper c =
     (let n = (of_char c :: nat)
      in (65 \<le> n \<and> n \<le> 90) \<or> (192 \<le> n \<and> n \<le> 222 \<and> n \<noteq> 215))"

definition toLowerCaseChar :: "char \<Rightarrow> char" where
  "toLowerCaseChar c =
     (if isUpper c
      then (case c of Char b0 b1 b2 b3 b4 b5 b6 b7 \<Rightarrow> Char b0 b1 b2 b3 b4 True b6 b7)
      else c)"

definition toLowerCase :: "string \<Rightarrow> string" where
  "toLowerCase s = map toLowerCaseChar s"

definition isWhiteSpace :: "char \<Rightarrow> bool" where
  "isWhiteSpace c =
     (let n = (of_char c :: nat) in (9 \<le> n \<and> n \<le> 13) \<or> n = 32 \<or> n = 160)"

definition trim :: "string \<Rightarrow> string" where
  "trim s = rev (dropWhile isWhiteSpace (rev (dropWhile isWhiteSpace s)))"

definition startsWith :: "string \<Rightarrow> string \<Rightarrow> bool" where
  "startsWith s p = (take (length p) s = p)"

definition slice :: "string \<Rightarrow> nat \<Rightarrow> string" where
  "slice s n = drop n s"

text \<open>
  \<^verbatim>\<open>s.split(sep)\<close> for a separator of one code unit: the pieces between the separators,
  empty pieces included, so the empty string gives one empty piece.
\<close>

fun split :: "string \<Rightarrow> char \<Rightarrow> string list" where
  "split [] sep = [[]]"
| "split (c # cs) sep =
     (if c = sep then [] # split cs sep
      else (case split cs sep of [] \<Rightarrow> [[c]] | l # ls \<Rightarrow> (c # l) # ls))"

text \<open>
  \<^verbatim>\<open>xs[i]\<close>: the element at index \<open>i\<close>, and \<^verbatim>\<open>undefined\<close> (here \<^const>\<open>None\<close>) when \<open>i\<close>
  is not an index of the array.
\<close>

definition at :: "'a list \<Rightarrow> int \<Rightarrow> 'a option" where
  "at xs i = (if 0 \<le> i \<and> i < int (length xs) then Some (xs ! nat i) else None)"

datatype exn = TypeError | SyntaxError | ReferenceError | Thrown

section \<open>Component state\<close>

text \<open>
  The function members that every object literal inherits from \<^verbatim>\<open>Object.prototype\<close>:
  \<^verbatim>\<open>constructor\<close>, \<^verbatim>\<open>hasOwnProperty\<close>, \<^verbatim>\<open>isPrototypeOf\<close>, \<^verbatim>\<open>propertyIsEnumerable\<close>,
  \<^verbatim>\<open>toLocaleString\<close>, \<^verbatim>\<open>toString\<close>, \<^verbatim>\<open>valueOf\<close>, \<^verbatim>\<open>__defineGetter__\<close>,
  \<^verbatim>\<open>__defineSetter__\<close>, \<^verbatim>\<open>__lookupGetter__\<close> and \<^verbatim>\<open>__lookupSetter__\<close>.
\<close>

datatype protoFunction =
    PConstructor | PHasOwnProperty | PIsPrototypeOf | PPropertyIsEnumerable
  | PToLocaleString | PToString | PValueOf
  | PDefineGetter | PDefineSetter | PLookupGetter | PLookupSetter

text \<open>
  The values that a read of \<^verbatim>\<open>colorMap[color]\<close> gives and that the cell \<^verbatim>\<open>terminalColor\<close> can
  come to hold: a primitive string or boolean, the wrapper object that \<^verbatim>\<open>Object(v)\<close> makes of
  one, the object \<^verbatim>\<open>Object.prototype\<close> itself, and one of its function members.
\<close>

datatype jsval =
    JString string
  | JBoolean bool
  | JStringObject string
  | JBooleanObject bool
  | JObjectPrototype
  | JFunction protoFunction

fun isObject :: "jsval \<Rightarrow> bool" where
  "isObject (JString v) = False"
| "isObject (JBoolean v) = False"
| "isObject v = True"

text \<open>\<^verbatim>\<open>Object(v)\<close> called as a function: a primitive is wrapped, an object is returned as it is.\<close>

fun toObject :: "jsval \<Rightarrow> jsval" where
  "toObject (JString v) = JStringObject v"
| "toObject (JBoolean v) = JBooleanObject v"
| "toObject v = v"

text \<open>
  A member of \<^verbatim>\<open>Object.prototype\<close> called as a plain function on one argument, so with
  \<^verbatim>\<open>this\<close> undefined, which is how React calls a function that was handed to a state setter.
  \<^verbatim>\<open>toString\<close> describes its \<^verbatim>\<open>this\<close>; \<^verbatim>\<open>constructor\<close> is \<^verbatim>\<open>Object\<close>; \<^verbatim>\<open>isPrototypeOf\<close> answers
  \<^verbatim>\<open>false\<close> for an argument that is not an object before it looks at \<^verbatim>\<open>this\<close>; every other
  member converts \<^verbatim>\<open>this\<close> to an object and raises a \<^verbatim>\<open>TypeError\<close> on \<^verbatim>\<open>undefined\<close>.
\<close>

fun callPlain :: "protoFunction \<Rightarrow> jsval \<Rightarrow> exn + jsval" where
  "callPlain PToString v = Inr (JString ''[object Undefined]'')"
| "callPlain PConstructor v = Inr (toObject v)"
| "callPlain PIsPrototypeOf v = (if isObject v then Inl TypeError else Inr (JBoolean False))"
| "callPlain PHasOwnProperty v = Inl TypeError"
| "callPlain PPropertyIsEnumerable v = Inl TypeError"
| "callPlain PToLocaleString v = Inl TypeError"
| "callPlain PValueOf v = Inl TypeError"
| "callPlain PDefineGetter v = Inl TypeError"
| "callPlain PDefineSetter v = Inl TypeError"
| "callPlain PLookupGetter v = Inl TypeError"
| "callPlain PLookupSetter v = Inl TypeError"

text \<open>
  One field per \<^verbatim>\<open>useState\<close> cell of the component. \<open>currentCommand\<close> is \<^const>\<open>None\<close> when
  it holds \<^verbatim>\<open>undefined\<close>.
\<close>

record terminal =
  history :: "string list"
  currentCommand :: "string option"
  commandHistory :: "string list"
  historyIndex :: int
  showMatrix :: bool
  isFullscreen :: bool
  isMinimized :: bool
  terminalColor :: jsval

definition initialState :: terminal where
  \<open>initialState =
     \<lparr>history = [''Welcome to TechOS Terminal v1.0.0'',
                 ''Type "help" to see available commands.''],
      currentCommand = Some [],
      commandHistory = [],
      historyIndex = - 1,
      showMatrix = False,
      isFullscreen = False,
      isMinimized = False,
      terminalColor = JString ''#00ff00''\<rparr>\<close>

text \<open>
  A call of a state setter. During an event handler the state variables keep the values of
  the last render; the setter calls are queued and React applies them in the order of the
  calls once the handler has returned, a later value for a cell replacing an earlier one.
  An argument that is a function is not stored: React runs it as an updater on the value the
  cell has at that point and stores what it returns, and when it throws, the component
  throws while it renders and the event leaves no state. Only \<^verbatim>\<open>setTerminalColor\<close> can be
  handed a function, through \<^verbatim>\<open>colorMap[color]\<close>.
\<close>

datatype setter =
    SetHistory "string list"
  | SetCurrentCommand "string option"
  | SetCommandHistory "string list"
  | SetHistoryIndex int
  | SetShowMatrix bool
  | SetTerminalColor jsval

fun apply_setter :: "setter \<Rightarrow> terminal \<Rightarrow> exn + terminal" where
  "apply_setter (SetHistory v) s = Inr (s\<lparr>history := v\<rparr>)"
| "apply_setter (SetCurrentCommand v) s = Inr (s\<lparr>currentCommand := v\<rparr>)"
| "apply_setter (SetCommandHistory v) s = Inr (s\<lparr>commandHistory := v\<rparr>)"
| "apply_setter (SetHistoryIndex v) s = Inr (s\<lparr>historyIndex := v\<rparr>)"
| "apply_setter (SetShowMatrix v) s = Inr (s\<lparr>showMatrix := v\<rparr>)"
| "apply_setter (SetTerminalColor (JFunction f)) s =
     (case callPlain f (terminalColor s) of
        Inl e \<Rightarrow> Inl e
      | Inr v \<Rightarrow> Inr (s\<lparr>terminalColor := v\<rparr>))"
| "apply_setter (SetTerminalColor v) s = Inr (s\<lparr>terminalColor := v\<rparr>)"

fun commit :: "setter list \<Rightarrow> terminal \<Rightarrow> exn + terminal" where
  "commit [] s = Inr s"
| "commit (u # us) s = (case apply_setter u s of Inl e \<Rightarrow> Inl e | Inr s' \<Rightarrow> commit us s')"

text \<open>
  What the host gives the handler during one event: the text of
  \<^verbatim>\<open>new Date().toLocaleString()\<close>, the value of \<^verbatim>\<open>Math.floor(Math.random() * n)\<close>, and
  the outcome of \<^verbatim>\<open>new Function(body)()\<close> converted to a string by the template literal
  (\<^const>\<open>Inr\<close> the text, \<^const>\<open>Inl\<close> what was thrown on the way).
\<close>

record host =
  now :: string
  randomFloor :: "nat \<Rightarrow> nat"
  evaluate :: "string \<Rightarrow> exn + string"

section \<open>The command interpreter\<close>

definition joinLines :: "string list \<Rightarrow> string" where
  "joinLines ls = (case ls of [] \<Rightarrow> [] | l # r \<Rightarrow> l @ concat (map (\<lambda>x. CHR 0x0A # x) r))"

definition helpText :: string where
  "helpText = joinLines
     [''Available commands:'',
      ''- help: Display this help message'',
      ''- clear: Clear the terminal screen'',
      ''- echo [text]: Display the text'',
      ''- date: Show current date and time'',
      ''- matrix: Toggle Matrix-style animation'',
      ''- whoami: Display current user'',
      ''- color [green/blue/purple]: Change terminal text color'',
      ''- systeminfo: Display system information'',
      ''- joke: Tell a random programming joke'',
      ''- calc [expression]: Simple calculator (e.g., calc 2 + 2)'']"

definition systemInfoText :: string where
  "systemInfoText = joinLines
     [''OS: TechOS v1.0.0'',
      ''Terminal: React Terminal'',
      ''Memory: 640K (should be enough for anybody)'',
      ''CPU: Quantum Core i9'',
      ''Resolution: Yes'',
      ''Status: Optimal'']"

definition jokes :: "string list" where
  "jokes =
     [''Why do programmers prefer dark mode? Because light attracts bugs!'',
      ''How many programmers does it take to change a light bulb? None, that's a hardware problem!'',
      ''Why do JavaScript developers need glasses? Because they don't see sharp!'']"

text \<open>
  A property read on an object literal that has no own property of that name: the member of
  \<^verbatim>\<open>Object.prototype\<close> with the name, where \<^verbatim>\<open>__proto__\<close> reads the literal's prototype, the
  object \<^verbatim>\<open>Object.prototype\<close>; \<^const>\<open>None\<close> is \<^verbatim>\<open>undefined\<close>.
\<close>

definition inherited :: "string \<Rightarrow> jsval option" where
  "inherited k =
     (if k = ''constructor'' then Some (JFunction PConstructor)
      else if k = ''hasOwnProperty'' then Some (JFunction PHasOwnProperty)
      else if k = ''isPrototypeOf'' then Some (JFunction PIsPrototypeOf)
      else if k = ''propertyIsEnumerable'' then Some (JFunction PPropertyIsEnumerable)
      else if k = ''toLocaleString'' then Some (JFunction PToLocaleString)
      else if k = ''toString'' then Some (JFunction PToString)
      else if k = ''valueOf'' then Some (JFunction PValueOf)
      else if k = ''__defineGetter__'' then Some (JFunction PDefineGetter)
      else if k = ''__defineSetter__'' then Some (JFunction PDefineSetter)
      else if k = ''__lookupGetter__'' then Some (JFunction PLookupGetter)
      else if k = ''__lookupSetter__'' then Some (JFunction PLookupSetter)
      else if k = ''__proto__'' then Some JObjectPrototype
      else None)"

text \<open>\<^verbatim>\<open>colorMap[color]\<close>: an own property of the literal first, then what it inherits.\<close>

definition colorMap :: "string \<Rightarrow> jsval option" where
  "colorMap k =
     (if k = ''green'' then Some (JString ''#00ff00'')
      else if k = ''blue'' then Some (JString ''#00ffff'')
      else if k = ''purple'' then Some (JString ''#ff00ff'')
      else inherited k)"

fun truthy :: "jsval \<Rightarrow> bool" where
  "truthy (JString v) = (v \<noteq> [])"
| "truthy (JBoolean v) = v"
| "truthy v = True"

definition notFound :: "string \<Rightarrow> string" where
  "notFound command =
     ''Command not found: '' @ command @ ''. Type 'help' for available commands.''"

text \<open>
  The result of \<open>handleCommand\<close> is the returned text (\<^const>\<open>None\<close> for \<^verbatim>\<open>null\<close> and for
  \<^verbatim>\<open>undefined\<close>, which \<open>processOutput\<close> treats alike) and the setter calls made on the way.
  The \<^verbatim>\<open>default\<close> branch of the switch tries the three prefixes in the order of the source;
  a \<^verbatim>\<open>color\<close> line whose token has no truthy entry falls through to the \<^verbatim>\<open>calc\<close> test and
  then to the last \<^verbatim>\<open>return\<close>.
\<close>

definition colorCase :: "string \<Rightarrow> (string option \<times> setter list) option" where
  "colorCase command =
     (if startsWith command ''color ''
      then (let color = slice command 6
            in (case colorMap color of
                  None \<Rightarrow> None
                | Some v \<Rightarrow>
                    if truthy v
                    then Some (Some (''Terminal color changed to '' @ color), [SetTerminalColor v])
                    else None))
      else None)"

definition calcCase :: "host \<Rightarrow> string \<Rightarrow> string option \<times> setter list" where
  "calcCase h command =
     (let expression = slice command 5
      in (case evaluate h (''return '' @ expression) of
            Inr result \<Rightarrow> (Some (expression @ '' = '' @ result), [])
          | Inl e \<Rightarrow> (Some ''Invalid expression'', [])))"

definition defaultCase :: "host \<Rightarrow> string \<Rightarrow> string option \<times> setter list" where
  "defaultCase h command =
     (if startsWith command ''echo '' then (Some (slice command 5), [])
      else (case colorCase command of
              Some r \<Rightarrow> r
            | None \<Rightarrow>
                if startsWith command ''calc '' then calcCase h command
                else (Some (notFound command), [])))"

definition handleCommand :: "host \<Rightarrow> terminal \<Rightarrow> string \<Rightarrow> string option \<times> setter list" where
  "handleCommand h s command =
     (let c = toLowerCase command
      in if c = ''help'' then (Some helpText, [])
         else if c = ''clear'' then (None, [SetHistory []])
         else if c = ''date'' then (Some (now h), [])
         else if c = ''matrix'' then (Some ''Matrix mode toggled...'', [SetShowMatrix (\<not> showMatrix s)])
         else if c = ''whoami'' then (Some ''guest@TechOS'', [])
         else if c = ''systeminfo'' then (Some systemInfoText, [])
         else if c = ''joke'' then (at jokes (int (randomFloor h (length jokes))), [])
         else defaultCase h command)"

text \<open>\<^verbatim>\<open>Boolean\<close> on a string, as \<^verbatim>\<open>filter(Boolean)\<close> applies it: only the empty string is falsy.\<close>

definition Boolean :: "string \<Rightarrow> bool" where
  "Boolean l = (l \<noteq> [])"

definition processOutput :: "string option \<Rightarrow> string list" where
  "processOutput output =
     (case output of
        None \<Rightarrow> []
      | Some t \<Rightarrow> if t = [] then [] else split t (CHR 0x0A))"

section \<open>Key events\<close>

text \<open>
  \<open>handleKeyPress\<close> gives the setter calls of one \<^verbatim>\<open>keydown\<close> event, in the order of the
  source, or the exception that \<^verbatim>\<open>currentCommand.trim()\<close> raises on \<^verbatim>\<open>undefined\<close>. The
  argument \<open>s\<close> is the state of the last render, which is what the handler reads throughout:
  the \<^verbatim>\<open>history\<close> spread into \<^verbatim>\<open>newLines\<close> is the one from before \<open>handleCommand\<close> ran.
\<close>

definition handleKeyPress :: "host \<Rightarrow> string \<Rightarrow> terminal \<Rightarrow> exn + setter list" where
  "handleKeyPress h key s =
     (if key = ''Enter'' then
        (case currentCommand s of
           None \<Rightarrow> Inl TypeError
         | Some text \<Rightarrow>
             (let command = trim text
              in if command \<noteq> [] then
                   (let (response, calls) = handleCommand h s command;
                        newLines = filter Boolean
                                     (history s @ [''> '' @ command] @ processOutput response)
                    in Inr ([SetCommandHistory (command # commandHistory s), SetHistoryIndex (- 1)]
                            @ calls
                            @ [SetHistory newLines, SetCurrentCommand (Some [])]))
                 else Inr []))
      else if key = ''ArrowUp'' then
        (if historyIndex s < int (length (commandHistory s)) - 1 then
           (let newIndex = historyIndex s + 1
            in Inr [SetHistoryIndex newIndex, SetCurrentCommand (at (commandHistory s) newIndex)])
         else Inr [])
      else if key = ''ArrowDown'' then
        (if historyIndex s > 0 then
           (let newIndex = historyIndex s - 1
            in Inr [SetHistoryIndex newIndex, SetCurrentCommand (at (commandHistory s) newIndex)])
         else if historyIndex s = 0 then
           Inr [SetHistoryIndex (- 1), SetCurrentCommand (Some [])]
         else Inr [])
      else Inr [])"

text \<open>
  The \<^verbatim>\<open>onKeyDown\<close> and \<^verbatim>\<open>onChange\<close> props of the input: the next render's state, or what
  the handler or an updater of the event threw. \<^verbatim>\<open>onChange\<close> hands \<^verbatim>\<open>setCurrentCommand\<close> the
  input's value, a string.
\<close>

definition onKeyDown :: "host \<Rightarrow> string \<Rightarrow> terminal \<Rightarrow> exn + terminal" where
  "onKeyDown h key s =
     (case handleKeyPress h key s of Inl e \<Rightarrow> Inl e | Inr calls \<Rightarrow> commit calls s)"

definition onChange :: "string \<Rightarrow> terminal \<Rightarrow> terminal" where
  "onChange v s = s\<lparr>currentCommand := Some v\<rparr>"

text \<open>A sequence of key events, each on the state the one before left; an exception ends it.\<close>

fun onKeys :: "host \<Rightarrow> string list \<Rightarrow> terminal \<Rightarrow> exn + terminal" where
  "onKeys h [] s = Inr s"
| "onKeys h (k # ks) s =
     (case onKeyDown h k s of Inl e \<Rightarrow> Inl e | Inr s' \<Rightarrow> onKeys h ks s')"

text \<open>Submitting a line: the input's value becomes the line, then Enter is pressed.\<close>

definition submitLine :: "host \<Rightarrow> string \<Rightarrow> terminal \<Rightarrow> exn + terminal" where
  "submitLine h line s = onKeyDown h ''Enter'' (onChange line s)"

text \<open>Reading a field of the state an event leaves.\<close>

definition observe :: "(terminal \<Rightarrow> 'a) \<Rightarrow> exn + terminal \<Rightarrow> exn + 'a" where
  "observe f r = (case r of Inl e \<Rightarrow> Inl e | Inr s \<Rightarrow> Inr (f s))"

text \<open>
  A host to run the model on: a fixed clock text, the random draw 0, and an evaluator that
  knows the two function bodies \<^verbatim>\<open>return 2 + 2\<close> and \<^verbatim>\<open>return 2 +\<close>, with the outcome
  JavaScript gives for each (the number 4, a \<^verbatim>\<open>SyntaxError\<close>).
\<close>

definition sampleHost :: host where
  "sampleHost =
     \<lparr>now = ''1/1/2025, 12:00:00 AM'',
      randomFloor = (\<lambda>n. 0),
      evaluate = (\<lambda>body. if body = ''return 2 + 2'' then Inr ''4'' else Inl SyntaxError)\<rparr>"


text \<open>
  A state to run the navigation on: the initial state after \<^verbatim>\<open>a\<close> and then \<^verbatim>\<open>b\<close> have gone
  into the command history, the cursor at \<open>-1\<close>.
\<close>

definition browsing :: terminal where
  "browsing = initialState\<lparr>commandHistory := [''b'', ''a'']\<rparr>"

text \<open>
  The lines of the help text as \<open>processOutput\<close> splits them, and the lines among some that
  enumerate a command: the help text marks each with a leading \<^verbatim>\<open>- \<close>.
\<close>

definition helpLines :: "string list" where
  "helpLines = split helpText (CHR 0x0A)"

definition commandEntries :: "string list \<Rightarrow> string list" where
  "commandEntries ls = filter (\<lambda>l. startsWith l ''- '') ls"

text \<open>
  The labels of the \<^verbatim>\<open>case\<close> clauses of the switch in \<open>handleCommand\<close>, and the first
  token of a line delimited by white space, which is what the specification says is compared
  with them (the code has no such function).
\<close>

definition exactNames :: "string list" where
  "exactNames = [''help'', ''clear'', ''date'', ''matrix'', ''whoami'', ''systeminfo'', ''joke'']"

definition firstToken :: "string \<Rightarrow> string" where
  "firstToken line = takeWhile (\<lambda>c. \<not> isWhiteSpace c) line"

section \<open>Submitting a line\<close>

lemma dropWhile_unchanged: "xs \<noteq> [] \<Longrightarrow> \<not> P (hd xs) \<Longrightarrow> dropWhile P xs = xs"
  by (cases xs) simp_all

lemma trim_unchanged:
  assumes "t \<noteq> []" and "\<not> isWhiteSpace (hd t)" and "\<not> isWhiteSpace (last t)"
  shows "trim t = t"
proof -
  have front: "dropWhile isWhiteSpace t = t"
    using assms(1,2) by (rule dropWhile_unchanged)
  have "rev t \<noteq> []" and "\<not> isWhiteSpace (hd (rev t))"
    using assms(1,3) by (simp_all add: hd_rev)
  then have rear: "dropWhile isWhiteSpace (rev t) = rev t"
    by (rule dropWhile_unchanged)
  show ?thesis
    by (simp add: trim_def front rear)
qed

lemma commit_append:
  "commit (a @ b) s = (case commit a s of Inl e \<Rightarrow> Inl e | Inr t \<Rightarrow> commit b t)"
  by (induction a arbitrary: s) (simp_all split: sum.splits)

lemma submitLine_eq:
  assumes "trim line = command" and "command \<noteq> []"
    and "handleCommand h (onChange line s) command = (response, calls)"
  shows "submitLine h line s =
           (case commit calls
                   (s\<lparr>currentCommand := Some line,
                      commandHistory := command # commandHistory s,
                      historyIndex := - 1\<rparr>) of
              Inl e \<Rightarrow> Inl e
            | Inr t \<Rightarrow>
                Inr (t\<lparr>history := filter Boolean
                                     (history s @ [''> '' @ command] @ processOutput response),
                       currentCommand := Some []\<rparr>))"
  using assms
  by (simp add: submitLine_def onKeyDown_def handleKeyPress_def onChange_def commit_append
      split: sum.splits)

lemma submitLine_history:
  assumes "trim line = command" and "command \<noteq> []"
    and "handleCommand h (onChange line s) command = (response, calls)"
    and "\<And>t. \<exists>t'. commit calls t = Inr t'"
  shows "observe history (submitLine h line s) =
           Inr (filter Boolean (history s) @ [''> '' @ command] @ filter Boolean (processOutput response))"
proof -
  obtain t' where
    "commit calls (s\<lparr>currentCommand := Some line,
                     commandHistory := command # commandHistory s,
                     historyIndex := - 1\<rparr>) = Inr t'"
    using assms(4) by blast
  with submitLine_eq [OF assms(1-3)] show ?thesis
    by (simp add: observe_def Boolean_def)
qed

lemmas string_ops = toLowerCase_def toLowerCaseChar_def isUpper_def isWhiteSpace_def
  startsWith_def slice_def

lemmas handler_defs = handleCommand_def defaultCase_def colorCase_def calcCase_def Let_def

lemma handle_clear: "handleCommand h s ''clear'' = (None, [SetHistory []])"
  by (simp add: handleCommand_def string_ops)

lemma trim_clear: "trim ''clear'' = ''clear''"
  by (simp add: trim_def isWhiteSpace_def)

text \<open>
  C1. Submitting \<^verbatim>\<open>clear\<close> is meant to leave an empty scrollback with nothing appended. In
  the code the \<^verbatim>\<open>setHistory([])\<close> of the \<^verbatim>\<open>clear\<close> case is followed, in the same event, by
  the \<^verbatim>\<open>setHistory(newLines)\<close> of \<open>handleKeyPress\<close>, and \<^verbatim>\<open>newLines\<close> was built from the
  scrollback of the last render: the scrollback after the event is the old one (without
  blank lines) followed by the echoed line \<^verbatim>\<open>> clear\<close>, for every prior scrollback, and on
  the initial state it is the two welcome lines followed by \<^verbatim>\<open>> clear\<close>.
\<close>

theorem C1_clear_keeps_scrollback:
  "observe history (submitLine h ''clear'' s) = Inr (filter Boolean (history s) @ [''> clear''])
   \<and> observe history (submitLine sampleHost ''clear'' initialState)
       = Inr (history initialState @ [''> clear''])"
proof -
  have gen: "observe history (submitLine h' ''clear'' s') = Inr (filter Boolean (history s') @ [''> clear''])"
    for h' s'
    using submitLine_history [OF trim_clear _ handle_clear, of h' s']
    by (simp add: processOutput_def)
  have "filter Boolean (history initialState) = history initialState"
    by (simp add: initialState_def Boolean_def)
  with gen [of sampleHost initialState] gen [of h s] show ?thesis
    by simp
qed

lemma handleCommand_calls:
  assumes "u \<in> set (snd (handleCommand h s c))"
  shows "(\<exists>v. u = SetHistory v) \<or> (\<exists>v. u = SetShowMatrix v) \<or> (\<exists>v. u = SetTerminalColor v)"
  using assms
  by (auto simp add: handler_defs split: if_splits option.splits sum.splits)

lemma apply_setter_keeps_command_history:
  assumes "apply_setter u t = Inr t'"
    and "(\<exists>v. u = SetHistory v) \<or> (\<exists>v. u = SetShowMatrix v) \<or> (\<exists>v. u = SetTerminalColor v)"
  shows "commandHistory t' = commandHistory t \<and> historyIndex t' = historyIndex t
       \<and> currentCommand t' = currentCommand t"
  using assms by (auto elim!: apply_setter.elims split: sum.splits)

lemma calls_keep_command_history:
  assumes "commit calls t = Inr t'"
    and "\<forall>u \<in> set calls. (\<exists>v. u = SetHistory v) \<or> (\<exists>v. u = SetShowMatrix v) \<or> (\<exists>v. u = SetTerminalColor v)"
  shows "commandHistory t' = commandHistory t \<and> historyIndex t' = historyIndex t
       \<and> currentCommand t' = currentCommand t"
  using assms
proof (induction calls arbitrary: t)
  case Nil
  then show ?case by simp
next
  case (Cons u us)
  from Cons.prems(1) obtain m where m: "apply_setter u t = Inr m" "commit us m = Inr t'"
    by (auto split: sum.splits)
  from apply_setter_keeps_command_history [OF m(1)] Cons.prems(2)
  have "commandHistory m = commandHistory t \<and> historyIndex m = historyIndex t
       \<and> currentCommand m = currentCommand t"
    by simp
  moreover from Cons.IH [OF m(2)] Cons.prems(2)
  have "commandHistory t' = commandHistory m \<and> historyIndex t' = historyIndex m
       \<and> currentCommand t' = currentCommand m"
    by simp
  ultimately show ?case by simp
qed

lemma submitLine_pushes_front:
  assumes "trim line \<noteq> []" and "submitLine h line s = Inr s'"
  shows "commandHistory s' = trim line # commandHistory s \<and> historyIndex s' = - 1
       \<and> currentCommand s' = Some []"
proof -
  obtain response calls where r: "handleCommand h (onChange line s) (trim line) = (response, calls)"
    by (cases "handleCommand h (onChange line s) (trim line)")
  then have kinds: "\<forall>u \<in> set calls. (\<exists>v. u = SetHistory v) \<or> (\<exists>v. u = SetShowMatrix v) \<or> (\<exists>v. u = SetTerminalColor v)"
    using handleCommand_calls [of _ h "onChange line s" "trim line"] by simp
  from submitLine_eq [OF refl assms(1) r] assms(2) obtain t where
    t: "commit calls (s\<lparr>currentCommand := Some line,
                        commandHistory := trim line # commandHistory s,
                        historyIndex := - 1\<rparr>) = Inr t"
    and s': "s' = t\<lparr>history := filter Boolean
                                   (history s @ [''> '' @ trim line] @ processOutput response),
                     currentCommand := Some []\<rparr>"
    by (auto split: sum.splits)
  from calls_keep_command_history [OF t kinds] show ?thesis
    by (simp add: s')
qed

lemma scrollback_has_no_blank_line:
  assumes "onKeyDown h key s = Inr s'" and "[] \<notin> set (history s)"
  shows "[] \<notin> set (history s')"
proof -
  have tail: "history t' = v"
    if "commit (calls @ [SetHistory v, SetCurrentCommand c]) t = Inr t'" for calls v c t t'
    using that by (auto simp add: commit_append split: sum.splits)
  show ?thesis
    using assms
    by (auto simp add: onKeyDown_def handleKeyPress_def Let_def Boolean_def
        dest!: tail split: if_splits option.splits prod.splits)
qed

section \<open>Output lines\<close>

lemma split_without_separator: "sep \<notin> set t \<Longrightarrow> split t sep = [t]"
  by (induction t) auto

lemma split_at_separator: "sep \<notin> set a \<Longrightarrow> split (a @ sep # r) sep = a # split r sep"
  by (induction a) auto

lemma split_joinLines:
  assumes "ls \<noteq> []" and "\<forall>l \<in> set ls. CHR 0x0A \<notin> set l"
  shows "split (joinLines ls) (CHR 0x0A) = ls"
  using assms
proof (induction ls)
  case Nil
  then show ?case by simp
next
  case (Cons l ls)
  show ?case
  proof (cases ls)
    case Nil
    with Cons.prems show ?thesis
      by (simp add: joinLines_def split_without_separator)
  next
    case (Cons m ms)
    have "joinLines (l # ls) = l @ CHR 0x0A # joinLines ls"
      by (simp add: joinLines_def Cons)
    moreover have "split (joinLines ls) (CHR 0x0A) = ls"
      using Cons.IH Cons.prems Cons by simp
    ultimately show ?thesis
      using Cons.prems by (simp add: split_at_separator)
  qed
qed

lemma helpLines_eq:
  "helpLines =
     [''Available commands:'',
      ''- help: Display this help message'',
      ''- clear: Clear the terminal screen'',
      ''- echo [text]: Display the text'',
      ''- date: Show current date and time'',
      ''- matrix: Toggle Matrix-style animation'',
      ''- whoami: Display current user'',
      ''- color [green/blue/purple]: Change terminal text color'',
      ''- systeminfo: Display system information'',
      ''- joke: Tell a random programming joke'',
      ''- calc [expression]: Simple calculator (e.g., calc 2 + 2)'']"
  unfolding helpLines_def helpText_def
  by (rule split_joinLines) simp_all

lemma helpText_not_empty: "helpText \<noteq> []"
  by (simp add: helpText_def joinLines_def)

lemma handle_help: "handleCommand h s ''help'' = (Some helpText, [])"
  by (simp add: handleCommand_def string_ops)

lemma trim_help: "trim ''help'' = ''help''"
  by (simp add: trim_def isWhiteSpace_def)

lemma Boolean_helpLines: "filter Boolean helpLines = helpLines"
  by (simp add: helpLines_eq Boolean_def)

text \<open>
  C3, as amended. Submitting \<^verbatim>\<open>help\<close> appends the echoed line and then the help text, one
  scrollback entry per line of the text: eleven lines, a heading and ten enumerated
  commands (help, clear, echo, date, matrix, whoami, color, systeminfo, joke, calc).
\<close>

theorem C3_help_lists_ten_commands:
  "observe history (submitLine h ''help'' s)
     = Inr (filter Boolean (history s) @ [''> help''] @ helpLines)
   \<and> joinLines helpLines = helpText
   \<and> length helpLines = 11
   \<and> length (commandEntries helpLines) = 10"
proof -
  have "processOutput (Some helpText) = helpLines"
    by (simp add: processOutput_def helpText_not_empty helpLines_def)
  with submitLine_history [OF trim_help _ handle_help, of h s]
  have "observe history (submitLine h ''help'' s)
     = Inr (filter Boolean (history s) @ [''> help''] @ helpLines)"
    by (simp add: Boolean_helpLines)
  moreover have "joinLines helpLines = helpText"
    by (simp add: helpLines_eq helpText_def)
  moreover have "length helpLines = 11"
    by (simp add: helpLines_eq)
  moreover have "length (commandEntries helpLines) = 10"
    by (simp add: helpLines_eq commandEntries_def startsWith_def)
  ultimately show ?thesis
    by blast
qed

text \<open>
  C3 as stated fails: the text that \<^verbatim>\<open>help\<close> returns enumerates ten commands, not nine.
\<close>

theorem C3_help_lists_nine_commands_counterexample:
  "fst (handleCommand sampleHost initialState ''help'') = Some helpText
   \<and> length (commandEntries (processOutput (Some helpText))) \<noteq> 9"
proof -
  have "processOutput (Some helpText) = helpLines"
    by (simp add: processOutput_def helpText_not_empty helpLines_def)
  moreover have "length (commandEntries helpLines) = 10"
    by (simp add: helpLines_eq commandEntries_def startsWith_def)
  ultimately show ?thesis
    by (simp add: handle_help)
qed


lemma handle_echo_alone: "handleCommand h s ''echo'' = (Some (notFound ''echo''), [])"
  by (simp add: handler_defs string_ops)

lemma trim_echo_space: "trim ''echo '' = ''echo''"
  by (simp add: trim_def isWhiteSpace_def)

text \<open>
  C4, as amended. A handler result of \<^verbatim>\<open>null\<close> gives no output line, and so does a result
  that is the empty string; the line \<^verbatim>\<open>echo \<close> is trimmed to \<^verbatim>\<open>echo\<close> before it is
  interpreted, matches no rule, and appends the echoed line and the unknown-command message
  for \<^verbatim>\<open>echo\<close>.
\<close>

theorem C4_empty_result_appends_nothing:
  "processOutput None = []
   \<and> processOutput (Some []) = []
   \<and> observe history (submitLine h ''echo '' s)
       = Inr (filter Boolean (history s) @ [''> echo'', notFound ''echo''])"
proof -
  have "processOutput (Some (notFound ''echo'')) = [notFound ''echo'']"
    by (simp add: processOutput_def notFound_def split_without_separator)
  with submitLine_history [OF trim_echo_space _ handle_echo_alone, of h s]
  have "observe history (submitLine h ''echo '' s)
       = Inr (filter Boolean (history s) @ [''> echo'', notFound ''echo''])"
    by (simp add: Boolean_def notFound_def)
  then show ?thesis
    by (simp add: processOutput_def)
qed

lemma echo_space_initial:
  "observe history (submitLine sampleHost ''echo '' initialState)
     = Inr (history initialState @ [''> echo'', notFound ''echo''])"
proof -
  have "processOutput (Some (notFound ''echo'')) = [notFound ''echo'']"
    by (simp add: processOutput_def notFound_def split_without_separator)
  with submitLine_history [OF trim_echo_space _ handle_echo_alone, of sampleHost initialState]
  show ?thesis
    by (simp add: Boolean_def notFound_def initialState_def)
qed

text \<open>
  C4 as stated fails: the empty string does not give one blank line, and submitting
  \<^verbatim>\<open>echo \<close> on the initial state does not append a blank line.
\<close>

theorem C4_empty_string_appends_blank_line_counterexample:
  "processOutput (Some []) \<noteq> [[]]
   \<and> observe history (submitLine sampleHost ''echo '' initialState)
       \<noteq> Inr (history initialState @ [''> echo'', []])"
  by (simp add: echo_space_initial processOutput_def notFound_def)

lemma handle_echo:
  "handleCommand h s (''echo '' @ x) = (Some x, [])"
  by (simp add: handler_defs string_ops)

lemma trim_echo:
  assumes "x \<noteq> []" and "\<not> isWhiteSpace (last x)"
  shows "trim (''echo '' @ x) = ''echo '' @ x"
proof (rule trim_unchanged)
  show "''echo '' @ x \<noteq> []" by simp
  show "\<not> isWhiteSpace (hd (''echo '' @ x))" by (simp add: isWhiteSpace_def)
  show "\<not> isWhiteSpace (last (''echo '' @ x))" using assms by simp
qed

text \<open>
  C6, as amended. For every \<open>x\<close> that has no newline, is not empty and does not end in white
  space, submitting \<^verbatim>\<open>echo \<close> followed by \<open>x\<close> appends the echoed line and then exactly the
  one line \<open>x\<close>.
\<close>

theorem C6_echo_round_trip:
  assumes "x \<noteq> []" and "\<not> isWhiteSpace (last x)" and "CHR 0x0A \<notin> set x"
  shows "observe history (submitLine h (''echo '' @ x) s)
           = Inr (filter Boolean (history s) @ [''> echo '' @ x, x])"
proof -
  have "processOutput (Some x) = [x]"
    using assms(1,3) by (simp add: processOutput_def split_without_separator)
  with submitLine_history [OF trim_echo [OF assms(1,2)] _ handle_echo, of h s] assms(1)
  show ?thesis
    by (simp add: Boolean_def)
qed

theorem C6_echo_round_trip_witness:
  "''a  b'' \<noteq> [] \<and> \<not> isWhiteSpace (last ''a  b'') \<and> CHR 0x0A \<notin> set ''a  b''
   \<and> observe history (submitLine sampleHost ''echo a  b'' initialState)
       = Inr (history initialState @ [''> echo a  b'', ''a  b''])"
proof -
  have ne: "''a  b'' \<noteq> []" and ws: "\<not> isWhiteSpace (last ''a  b'')"
    and nl: "CHR 0x0A \<notin> set ''a  b''"
    by (simp_all add: isWhiteSpace_def)
  have "filter Boolean (history initialState) = history initialState"
    by (simp add: initialState_def Boolean_def)
  with C6_echo_round_trip [OF ne ws nl, of sampleHost initialState] ne ws nl
  show ?thesis
    by simp
qed

lemma echo_trailing_space_initial:
  "observe history (submitLine sampleHost ''echo hi '' initialState)
     = Inr (history initialState @ [''> echo hi'', ''hi''])"
proof -
  have t: "trim ''echo hi '' = ''echo hi''"
    by (simp add: trim_def isWhiteSpace_def)
  have e: "handleCommand h s ''echo hi'' = (Some ''hi'', [])" for h s
    using handle_echo [of h s "''hi''"] by simp
  have "processOutput (Some ''hi'') = [''hi'']"
    by (simp add: processOutput_def)
  with submitLine_history [OF t _ e, of sampleHost initialState]
  show ?thesis
    by (simp add: Boolean_def initialState_def)
qed

text \<open>
  C6 as stated fails: \<^verbatim>\<open>hi \<close> with its trailing blank has no newline, and submitting
  \<^verbatim>\<open>echo hi \<close> outputs \<^verbatim>\<open>hi\<close> without the blank, because the line is trimmed first.
\<close>

theorem C6_echo_trailing_space_counterexample:
  "CHR 0x0A \<notin> set ''hi ''
   \<and> observe history (submitLine sampleHost (''echo '' @ ''hi '') initialState)
       = Inr (history initialState @ [''> echo hi'', ''hi''])
   \<and> ''hi'' \<noteq> ''hi ''"
  using echo_trailing_space_initial by simp

section \<open>Matching a command\<close>

lemma low_bits_bound:
  "(of_bool b0 + 2 * of_bool b1 + 4 * of_bool b2 + 8 * of_bool b3 + 16 * of_bool b4 :: nat) < 32"
  by (cases b0; cases b1; cases b2; cases b3; cases b4) simp_all

lemma of_char_bits:
  "(of_char (Char b0 b1 b2 b3 b4 b5 b6 b7) :: nat)
     = (of_bool b0 + 2 * of_bool b1 + 4 * of_bool b2 + 8 * of_bool b3 + 16 * of_bool b4)
       + 32 * of_bool b5 + 64 * of_bool b6 + 128 * of_bool b7"
  by (simp add: of_char_def)  


lemma isUpper_bits:
  "isUpper (Char b0 b1 b2 b3 b4 b5 b6 b7) \<Longrightarrow> b6 \<and> \<not> b5"
  using low_bits_bound [of b0 b1 b2 b3 b4]
  unfolding isUpper_def Let_def of_char_bits
  by (cases b5; cases b6; cases b7) simp_all

lemma isWhiteSpace_bits:
  "isWhiteSpace (Char b0 b1 b2 b3 b4 b5 b6 b7) \<Longrightarrow> \<not> b6"
  using low_bits_bound [of b0 b1 b2 b3 b4]
  unfolding isWhiteSpace_def Let_def of_char_bits
  by (cases b5; cases b6; cases b7) simp_all

lemma toLowerCaseChar_whitespace: "isWhiteSpace (toLowerCaseChar c) = isWhiteSpace c"
proof (cases "isUpper c")
  case False
  then show ?thesis by (simp add: toLowerCaseChar_def)
next
  case True
  obtain b0 b1 b2 b3 b4 b5 b6 b7 where c: "c = Char b0 b1 b2 b3 b4 b5 b6 b7"
    by (cases c)
  from True have b6 using isUpper_bits [of b0 b1 b2 b3 b4 b5 b6 b7] by (simp add: c)
  then have "\<not> isWhiteSpace c" and "\<not> isWhiteSpace (toLowerCaseChar c)"
    using isWhiteSpace_bits [of b0 b1 b2 b3 b4 b5 b6 b7]
      isWhiteSpace_bits [of b0 b1 b2 b3 b4 True b6 b7] True
    by (auto simp add: c toLowerCaseChar_def)
  then show ?thesis by simp
qed


lemma exact_name_has_no_whitespace:
  "n \<in> set exactNames \<Longrightarrow> \<forall>ch \<in> set n. \<not> isWhiteSpace ch"
  by (auto simp add: exactNames_def isWhiteSpace_def)

lemma handleCommand_default:
  "toLowerCase c \<notin> set exactNames \<Longrightarrow> handleCommand h s c = defaultCase h c"
  by (simp add: handleCommand_def exactNames_def Let_def)

lemma second_token_no_exact_name:
  assumes "firstToken c \<noteq> c"
  shows "toLowerCase c \<notin> set exactNames"
proof
  assume n: "toLowerCase c \<in> set exactNames"
  from assms obtain ch where ch: "ch \<in> set c" "isWhiteSpace ch"
    by (auto simp add: firstToken_def takeWhile_eq_all_conv)
  then have "toLowerCaseChar ch \<in> set (toLowerCase c)" "isWhiteSpace (toLowerCaseChar ch)"
    by (simp_all add: toLowerCase_def toLowerCaseChar_whitespace)
  with exact_name_has_no_whitespace [OF n] show False
    by blast
qed

text \<open>
  C5, as amended. An exact command is matched when the whole line, compared without regard
  to letter case, equals one of the seven names: each name then gives its handler's result,
  whatever the letter case. Every other line goes to the \<^verbatim>\<open>default\<close> branch, and so does every
  line that has white space in it, that is, that continues after its first token.
\<close>

theorem C5_exact_match_on_whole_line:
  "(toLowerCase c = ''help'' \<longrightarrow> handleCommand h s c = (Some helpText, []))
   \<and> (toLowerCase c = ''clear'' \<longrightarrow> handleCommand h s c = (None, [SetHistory []]))
   \<and> (toLowerCase c = ''date'' \<longrightarrow> handleCommand h s c = (Some (now h), []))
   \<and> (toLowerCase c = ''matrix'' \<longrightarrow>
        handleCommand h s c = (Some ''Matrix mode toggled...'', [SetShowMatrix (\<not> showMatrix s)]))
   \<and> (toLowerCase c = ''whoami'' \<longrightarrow> handleCommand h s c = (Some ''guest@TechOS'', []))
   \<and> (toLowerCase c = ''systeminfo'' \<longrightarrow> handleCommand h s c = (Some systemInfoText, []))
   \<and> (toLowerCase c = ''joke'' \<longrightarrow>
        handleCommand h s c = (at jokes (int (randomFloor h (length jokes))), []))
   \<and> (toLowerCase c \<notin> set exactNames \<longrightarrow> handleCommand h s c = defaultCase h c)
   \<and> (firstToken c \<noteq> c \<longrightarrow> handleCommand h s c = defaultCase h c)"
proof -
  have "firstToken c \<noteq> c \<longrightarrow> handleCommand h s c = defaultCase h c"
    using second_token_no_exact_name [of c] handleCommand_default [of c h s] by blast
  moreover have "toLowerCase c \<notin> set exactNames \<longrightarrow> handleCommand h s c = defaultCase h c"
    using handleCommand_default [of c h s] by blast
  ultimately show ?thesis
    by (simp add: handleCommand_def)
qed

theorem C5_exact_match_on_whole_line_witness:
  "toLowerCase ''HeLP'' = ''help''
   \<and> handleCommand sampleHost initialState ''HeLP'' = (Some helpText, [])
   \<and> toLowerCase ''Clear'' = ''clear''
   \<and> handleCommand sampleHost initialState ''Clear'' = (None, [SetHistory []])
   \<and> toLowerCase ''DATE'' = ''date''
   \<and> handleCommand sampleHost initialState ''DATE'' = (Some (now sampleHost), [])
   \<and> toLowerCase ''matrix'' = ''matrix''
   \<and> handleCommand sampleHost initialState ''matrix''
       = (Some ''Matrix mode toggled...'', [SetShowMatrix (\<not> showMatrix initialState)])
   \<and> toLowerCase ''WhoAmI'' = ''whoami''
   \<and> handleCommand sampleHost initialState ''WhoAmI'' = (Some ''guest@TechOS'', [])
   \<and> toLowerCase ''SystemInfo'' = ''systeminfo''
   \<and> handleCommand sampleHost initialState ''SystemInfo'' = (Some systemInfoText, [])
   \<and> toLowerCase ''Joke'' = ''joke''
   \<and> handleCommand sampleHost initialState ''Joke''
       = (at jokes (int (randomFloor sampleHost (length jokes))), [])
   \<and> toLowerCase ''ls'' \<notin> set exactNames
   \<and> handleCommand sampleHost initialState ''ls'' = defaultCase sampleHost ''ls''
   \<and> firstToken ''help me'' \<noteq> ''help me''
   \<and> handleCommand sampleHost initialState ''help me'' = defaultCase sampleHost ''help me''"
proof -
  have l1: "toLowerCase ''HeLP'' = ''help''" and l2: "toLowerCase ''Clear'' = ''clear''"
    and l3: "toLowerCase ''DATE'' = ''date''" and l4: "toLowerCase ''matrix'' = ''matrix''"
    and l5: "toLowerCase ''WhoAmI'' = ''whoami''"
    and l6: "toLowerCase ''SystemInfo'' = ''systeminfo''"
    and l7: "toLowerCase ''Joke'' = ''joke''"
    by (simp_all add: string_ops)
  have l8: "toLowerCase ''ls'' \<notin> set exactNames"
    by (simp add: string_ops exactNames_def)
  have l9: "firstToken ''help me'' \<noteq> ''help me''"
    by (simp add: firstToken_def isWhiteSpace_def)
  have w1: "handleCommand sampleHost initialState ''HeLP'' = (Some helpText, [])"
    using C5_exact_match_on_whole_line [of "''HeLP''" sampleHost initialState] l1 by simp
  have w2: "handleCommand sampleHost initialState ''Clear'' = (None, [SetHistory []])"
    using C5_exact_match_on_whole_line [of "''Clear''" sampleHost initialState] l2 by simp
  have w3: "handleCommand sampleHost initialState ''DATE'' = (Some (now sampleHost), [])"
    using C5_exact_match_on_whole_line [of "''DATE''" sampleHost initialState] l3 by simp
  have w4: "handleCommand sampleHost initialState ''matrix''
       = (Some ''Matrix mode toggled...'', [SetShowMatrix (\<not> showMatrix initialState)])"
    using C5_exact_match_on_whole_line [of "''matrix''" sampleHost initialState] l4 by simp
  have w5: "handleCommand sampleHost initialState ''WhoAmI'' = (Some ''guest@TechOS'', [])"
    using C5_exact_match_on_whole_line [of "''WhoAmI''" sampleHost initialState] l5 by simp
  have w6: "handleCommand sampleHost initialState ''SystemInfo'' = (Some systemInfoText, [])"
    using C5_exact_match_on_whole_line [of "''SystemInfo''" sampleHost initialState] l6 by simp
  have w7: "handleCommand sampleHost initialState ''Joke''
       = (at jokes (int (randomFloor sampleHost (length jokes))), [])"
    using C5_exact_match_on_whole_line [of "''Joke''" sampleHost initialState] l7 by simp
  have w8: "handleCommand sampleHost initialState ''ls'' = defaultCase sampleHost ''ls''"
    using C5_exact_match_on_whole_line [of "''ls''" sampleHost initialState] l8 by simp
  have w9: "handleCommand sampleHost initialState ''help me'' = defaultCase sampleHost ''help me''"
    using C5_exact_match_on_whole_line [of "''help me''" sampleHost initialState] l9 by simp
  show ?thesis
    by (intro conjI l1 l2 l3 l4 l5 l6 l7 l8 l9 w1 w2 w3 w4 w5 w6 w7 w8 w9)
qed

text \<open>
  C5 as stated fails: the first token of \<^verbatim>\<open>help me\<close> is \<^verbatim>\<open>help\<close>, and the line gets the
  unknown-command message, not the help text.
\<close>

theorem C5_first_token_match_counterexample:
  "toLowerCase (firstToken ''help me'') = ''help''
   \<and> handleCommand sampleHost initialState ''help me'' = (Some (notFound ''help me''), [])
   \<and> notFound ''help me'' \<noteq> helpText"
  by (simp add: handler_defs string_ops firstToken_def notFound_def helpText_def joinLines_def)

section \<open>Colors\<close>

lemma color_outside_table:
  assumes "colorMap c = None"
  shows "handleCommand h s (''color '' @ c) = (Some (notFound (''color '' @ c)), [])"
  using assms by (simp add: handler_defs string_ops)

lemma handle_color:
  assumes "c \<in> {''green'', ''blue'', ''purple''}"
  shows "\<exists>v. handleCommand h s (''color '' @ c)
              = (Some (''Terminal color changed to '' @ c), [SetTerminalColor (JString v)])"
  using assms by (auto simp add: handler_defs string_ops colorMap_def)

lemma trim_color:
  assumes "c \<in> {''green'', ''blue'', ''purple''}"
  shows "trim (''color '' @ c) = ''color '' @ c"
  using assms by (auto simp add: trim_def isWhiteSpace_def)

text \<open>
  C10. For each of the three color tokens \<open>c\<close> of the table, submitting \<^verbatim>\<open>color \<close>
  followed by \<open>c\<close> appends the echoed line and exactly one output line,
  \<^verbatim>\<open>Terminal color changed to \<close> followed by \<open>c\<close>.
\<close>

theorem C10_color_confirmation_line:
  assumes "c \<in> {''green'', ''blue'', ''purple''}"
  shows "observe history (submitLine h (''color '' @ c) s)
           = Inr (filter Boolean (history s)
                  @ [''> color '' @ c, ''Terminal color changed to '' @ c])"
proof -
  from handle_color [OF assms] obtain v where
    v: "handleCommand h (onChange (''color '' @ c) s) (''color '' @ c)
          = (Some (''Terminal color changed to '' @ c), [SetTerminalColor (JString v)])"
    by blast
  have "CHR 0x0A \<notin> set (''Terminal color changed to '' @ c)"
    using assms by auto
  then have "processOutput (Some (''Terminal color changed to '' @ c))
               = [''Terminal color changed to '' @ c]"
    by (simp add: processOutput_def split_without_separator)
  with submitLine_history [OF trim_color [OF assms] _ v]
  show ?thesis
    by (simp add: Boolean_def)
qed

theorem C10_color_confirmation_line_witness:
  "''purple'' \<in> {''green'', ''blue'', ''purple''}
   \<and> observe history (submitLine sampleHost ''color purple'' initialState)
       = Inr (history initialState @ [''> color purple'', ''Terminal color changed to purple''])"
proof -
  have m: "''purple'' \<in> {''green'', ''blue'', ''purple''}"
    by simp
  have "filter Boolean (history initialState) = history initialState"
    by (simp add: initialState_def Boolean_def)
  with C10_color_confirmation_line [OF m, of sampleHost initialState] m
  show ?thesis
    by simp
qed

lemma color_blue:
  "observe terminalColor (submitLine h ''color blue'' s) = Inr (JString ''#00ffff'')
   \<and> observe history (submitLine h ''color blue'' s)
       = Inr (filter Boolean (history s) @ [''> color blue'', ''Terminal color changed to blue''])"
proof -
  have t: "trim ''color blue'' = ''color blue''"
    by (simp add: trim_def isWhiteSpace_def)
  have r: "handleCommand h' s' ''color blue''
             = (Some ''Terminal color changed to blue'', [SetTerminalColor (JString ''#00ffff'')])"
    for h' s'
    by (simp add: handler_defs string_ops colorMap_def)
  have "processOutput (Some ''Terminal color changed to blue'') = [''Terminal color changed to blue'']"
    by (simp add: processOutput_def)
  with submitLine_eq [OF t _ r, of h s] show ?thesis
    by (simp add: observe_def Boolean_def)
qed

lemma color_ultraviolet:
  "observe terminalColor (submitLine h ''color ultraviolet'' s) = Inr (terminalColor s)
   \<and> observe history (submitLine h ''color ultraviolet'' s)
       = Inr (filter Boolean (history s)
              @ [''> color ultraviolet'', notFound ''color ultraviolet''])"
proof -
  have t: "trim ''color ultraviolet'' = ''color ultraviolet''"
    by (simp add: trim_def isWhiteSpace_def)
  have r: "handleCommand h' s' ''color ultraviolet'' = (Some (notFound ''color ultraviolet''), [])"
    for h' s'
    by (simp add: handler_defs string_ops colorMap_def inherited_def)
  have "processOutput (Some (notFound ''color ultraviolet'')) = [notFound ''color ultraviolet'']"
    by (simp add: processOutput_def notFound_def split_without_separator)
  with submitLine_eq [OF t _ r, of h s] show ?thesis
    by (simp add: observe_def Boolean_def notFound_def)
qed

lemma inherited_truthy: "inherited c = Some v \<Longrightarrow> truthy v"
  by (auto simp add: inherited_def split: if_splits)

lemma color_inherited_name:
  assumes "inherited c = Some v" and "c \<notin> {''green'', ''blue'', ''purple''}"
  shows "handleCommand h s (''color '' @ c)
           = (Some (''Terminal color changed to '' @ c), [SetTerminalColor v])"
  using assms inherited_truthy [OF assms(1)]
  by (simp add: handler_defs string_ops colorMap_def)

lemma color_valueOf_throws: "submitLine h ''color valueOf'' s = Inl TypeError"
proof -
  have t: "trim ''color valueOf'' = ''color valueOf''"
    by (simp add: trim_def isWhiteSpace_def)
  have r: "handleCommand h' s' ''color valueOf''
             = (Some ''Terminal color changed to valueOf'', [SetTerminalColor (JFunction PValueOf)])"
    for h' s'
    by (simp add: handler_defs string_ops colorMap_def inherited_def)
  from submitLine_eq [OF t _ r, of h s] show ?thesis
    by simp
qed

text \<open>
  C7. A token outside the table green, blue, purple is meant to change no color state and
  to give the unknown-command message. The lookup \<^verbatim>\<open>colorMap[color]\<close> also finds what the
  object literal inherits from \<^verbatim>\<open>Object.prototype\<close>: for \<^verbatim>\<open>color toString\<close> the handler
  returns \<^verbatim>\<open>Terminal color changed to toString\<close>, which is not the unknown-command message,
  and calls \<^verbatim>\<open>setTerminalColor\<close> with the inherited function. Submitted on the initial state,
  the line appends the echoed line and that confirmation, and React, running the function as
  an updater, leaves the text \<^verbatim>\<open>[object Undefined]\<close> in the color cell.
\<close>

theorem C7_inherited_name_is_taken_for_a_color:
  "''toString'' \<notin> {''green'', ''blue'', ''purple''}
   \<and> handleCommand sampleHost initialState ''color toString''
       = (Some ''Terminal color changed to toString'', [SetTerminalColor (JFunction PToString)])
   \<and> observe history (submitLine sampleHost ''color toString'' initialState)
       = Inr (history initialState
              @ [''> color toString'', ''Terminal color changed to toString''])
   \<and> observe terminalColor (submitLine sampleHost ''color toString'' initialState)
       = Inr (JString ''[object Undefined]'')
   \<and> terminalColor initialState \<noteq> JString ''[object Undefined]''
   \<and> ''Terminal color changed to toString'' \<noteq> notFound ''color toString''"
proof -
  have t: "trim ''color toString'' = ''color toString''"
    by (simp add: trim_def isWhiteSpace_def)
  have r: "handleCommand h' s' ''color toString''
             = (Some ''Terminal color changed to toString'', [SetTerminalColor (JFunction PToString)])"
    for h' s'
    by (simp add: handler_defs string_ops colorMap_def inherited_def)
  have "processOutput (Some ''Terminal color changed to toString'')
          = [''Terminal color changed to toString'']"
    by (simp add: processOutput_def)
  with submitLine_eq [OF t _ r, of sampleHost initialState] r [of sampleHost initialState]
  show ?thesis
    by (simp add: observe_def Boolean_def initialState_def notFound_def)
qed

section \<open>The calculator\<close>

lemma handle_calc:
  "handleCommand h s (''calc '' @ x)
     = (case evaluate h (''return '' @ x) of
          Inr result \<Rightarrow> (Some (x @ '' = '' @ result), [])
        | Inl e \<Rightarrow> (Some ''Invalid expression'', []))"
  by (simp add: handler_defs string_ops colorMap_def)

lemma dropWhile_keeps_suffix: "\<not> P a \<Longrightarrow> \<exists>zs. dropWhile P (ys @ a # r) = zs @ a # r"
proof (induction ys)
  case Nil
  then show ?case by simp
next
  case (Cons y ys)
  then show ?case
    by (cases "P y") (simp, metis append_Cons dropWhile.simps(2))
qed

lemma trim_calc_prefix: "\<exists>r. trim (''calc '' @ x) = ''calc'' @ r"
proof -
  have front: "dropWhile isWhiteSpace (''calc '' @ x) = ''calc '' @ x"
    by (simp add: isWhiteSpace_def)
  have "rev (''calc '' @ x) = (rev x @ '' '') @ CHR ''c'' # ''lac''"
    by simp
  moreover have "\<not> isWhiteSpace CHR ''c''"
    by (simp add: isWhiteSpace_def)
  ultimately obtain zs where
    "dropWhile isWhiteSpace (rev (''calc '' @ x)) = zs @ CHR ''c'' # ''lac''"
    using dropWhile_keeps_suffix [of isWhiteSpace "CHR ''c''" "rev x @ '' ''" "''lac''"]
    by auto
  then have "trim (''calc '' @ x) = ''calc'' @ rev zs"
    unfolding trim_def front by simp
  then show ?thesis ..
qed

lemma calc_line_no_calls: "snd (handleCommand h s (''calc'' @ r)) = []"
  by (auto simp add: handler_defs string_ops split: sum.splits option.splits)

lemma submit_calc_returns: "\<exists>s'. submitLine h (''calc '' @ x) s = Inr s'"
proof -
  obtain r where r: "trim (''calc '' @ x) = ''calc'' @ r"
    using trim_calc_prefix by blast
  obtain response where
    "handleCommand h (onChange (''calc '' @ x) s) (''calc'' @ r) = (response, [])"
    using calc_line_no_calls [of h "onChange (''calc '' @ x) s" r]
    by (cases "handleCommand h (onChange (''calc '' @ x) s) (''calc'' @ r)") simp
  from submitLine_eq [OF r _ this] show ?thesis
    by simp
qed

text \<open>
  C9. On a host whose evaluator returns 4 for the body \<^verbatim>\<open>return 2 + 2\<close>, submitting
  \<^verbatim>\<open>calc 2 + 2\<close> appends the echoed line and the single line \<^verbatim>\<open>2 + 2 = 4\<close>; on a host whose
  evaluator raises a \<^verbatim>\<open>SyntaxError\<close> for \<^verbatim>\<open>return 2 +\<close>, submitting \<^verbatim>\<open>calc 2 +\<close> appends
  \<^verbatim>\<open>Invalid expression\<close>. Whatever the evaluator raises for an expression, the handler
  returns that fixed message, and submitting a \<^verbatim>\<open>calc\<close> line never ends in an exception.
\<close>

theorem C9_calc_renders_result_or_fixed_message:
  "(evaluate h ''return 2 + 2'' = Inr ''4'' \<longrightarrow>
      observe history (submitLine h ''calc 2 + 2'' s)
        = Inr (filter Boolean (history s) @ [''> calc 2 + 2'', ''2 + 2 = 4'']))
   \<and> (evaluate h ''return 2 +'' = Inl SyntaxError \<longrightarrow>
      observe history (submitLine h ''calc 2 +'' s)
        = Inr (filter Boolean (history s) @ [''> calc 2 +'', ''Invalid expression'']))
   \<and> (evaluate h (''return '' @ x) = Inl e \<longrightarrow>
      handleCommand h s (''calc '' @ x) = (Some ''Invalid expression'', []))
   \<and> (\<exists>s'. submitLine h (''calc '' @ x) s = Inr s')"
proof -
  have t1: "trim ''calc 2 + 2'' = ''calc 2 + 2''" and t2: "trim ''calc 2 +'' = ''calc 2 +''"
    by (simp_all add: trim_def isWhiteSpace_def)
  have p1: "processOutput (Some ''2 + 2 = 4'') = [''2 + 2 = 4'']"
    and p2: "processOutput (Some ''Invalid expression'') = [''Invalid expression'']"
    by (simp_all add: processOutput_def)
  have "observe history (submitLine h ''calc 2 + 2'' s)
        = Inr (filter Boolean (history s) @ [''> calc 2 + 2'', ''2 + 2 = 4''])"
    if "evaluate h ''return 2 + 2'' = Inr ''4''"
  proof -
    have "handleCommand h (onChange ''calc 2 + 2'' s) ''calc 2 + 2'' = (Some ''2 + 2 = 4'', [])"
      using handle_calc [of h _ "''2 + 2''"] that by simp
    from submitLine_history [OF t1 _ this] p1 show ?thesis
      by (simp add: Boolean_def)
  qed
  moreover have "observe history (submitLine h ''calc 2 +'' s)
        = Inr (filter Boolean (history s) @ [''> calc 2 +'', ''Invalid expression''])"
    if "evaluate h ''return 2 +'' = Inl SyntaxError"
  proof -
    have "handleCommand h (onChange ''calc 2 +'' s) ''calc 2 +'' = (Some ''Invalid expression'', [])"
      using handle_calc [of h _ "''2 +''"] that by simp
    from submitLine_history [OF t2 _ this] p2 show ?thesis
      by (simp add: Boolean_def)
  qed
  moreover have "handleCommand h s (''calc '' @ x) = (Some ''Invalid expression'', [])"
    if "evaluate h (''return '' @ x) = Inl e"
    using that handle_calc [of h s x] by simp
  ultimately show ?thesis
    using submit_calc_returns [of h x s] by blast
qed

theorem C9_calc_renders_result_or_fixed_message_witness:
  "evaluate sampleHost ''return 2 + 2'' = Inr ''4''
   \<and> observe history (submitLine sampleHost ''calc 2 + 2'' initialState)
       = Inr (history initialState @ [''> calc 2 + 2'', ''2 + 2 = 4''])
   \<and> evaluate sampleHost ''return 2 +'' = Inl SyntaxError
   \<and> observe history (submitLine sampleHost ''calc 2 +'' initialState)
       = Inr (history initialState @ [''> calc 2 +'', ''Invalid expression''])
   \<and> evaluate sampleHost (''return '' @ ''2 +'') = Inl SyntaxError
   \<and> handleCommand sampleHost initialState (''calc '' @ ''2 +'') = (Some ''Invalid expression'', [])"
proof -
  have e: "evaluate sampleHost ''return 2 + 2'' = Inr ''4''"
    "evaluate sampleHost ''return 2 +'' = Inl SyntaxError"
    "evaluate sampleHost (''return '' @ ''2 +'') = Inl SyntaxError"
    by (simp_all add: sampleHost_def)
  have "filter Boolean (history initialState) = history initialState"
    by (simp add: initialState_def Boolean_def)
  with e C9_calc_renders_result_or_fixed_message [of sampleHost initialState "''2 +''" SyntaxError]
  show ?thesis
    by simp
qed

section \<open>History navigation\<close>

lemma arrow_step:
  assumes "k = ''ArrowUp'' \<or> k = ''ArrowDown''"
    and "- 1 \<le> historyIndex s" and "historyIndex s \<le> int (length (commandHistory s)) - 1"
  shows "\<exists>s'. onKeyDown h k s = Inr s'
           \<and> - 1 \<le> historyIndex s' \<and> historyIndex s' \<le> int (length (commandHistory s')) - 1
           \<and> commandHistory s' = commandHistory s \<and> history s' = history s
           \<and> showMatrix s' = showMatrix s \<and> isFullscreen s' = isFullscreen s
           \<and> isMinimized s' = isMinimized s \<and> terminalColor s' = terminalColor s"
  using assms
  by (auto simp add: onKeyDown_def handleKeyPress_def Let_def)

text \<open>
  C8. From a state whose cursor lies in \<open>[-1, N-1]\<close>, \<open>N\<close> the length of the command history,
  every finite sequence of ArrowUp and ArrowDown keys runs without an exception and leaves
  the cursor in \<open>[-1, N-1]\<close>; the command history, the scrollback, the matrix flag, the
  window flags and the colour are what they were, so only the cursor and the input's text
  can have changed.
\<close>

theorem C8_navigation_keeps_cursor_in_range:
  assumes "set ks \<subseteq> {''ArrowUp'', ''ArrowDown''}"
    and "- 1 \<le> historyIndex s" and "historyIndex s \<le> int (length (commandHistory s)) - 1"
  shows "\<exists>s'. onKeys h ks s = Inr s'
           \<and> - 1 \<le> historyIndex s' \<and> historyIndex s' \<le> int (length (commandHistory s)) - 1
           \<and> commandHistory s' = commandHistory s \<and> history s' = history s
           \<and> showMatrix s' = showMatrix s \<and> isFullscreen s' = isFullscreen s
           \<and> isMinimized s' = isMinimized s \<and> terminalColor s' = terminalColor s"
  using assms
proof (induction ks arbitrary: s)
  case Nil
  then show ?case by simp
next
  case (Cons k ks)
  from Cons.prems(1) have k: "k = ''ArrowUp'' \<or> k = ''ArrowDown''" and ks: "set ks \<subseteq> {''ArrowUp'', ''ArrowDown''}"
    by simp_all
  from arrow_step [OF k Cons.prems(2,3), of h] obtain t where
    t: "onKeyDown h k s = Inr t" "- 1 \<le> historyIndex t"
       "historyIndex t \<le> int (length (commandHistory t)) - 1"
       "commandHistory t = commandHistory s" "history t = history s"
       "showMatrix t = showMatrix s" "isFullscreen t = isFullscreen s"
       "isMinimized t = isMinimized s" "terminalColor t = terminalColor s"
    by blast
  from Cons.IH [OF ks t(2,3)] obtain s' where
    s': "onKeys h ks t = Inr s'" "- 1 \<le> historyIndex s'"
       "historyIndex s' \<le> int (length (commandHistory t)) - 1"
       "commandHistory s' = commandHistory t" "history s' = history t"
       "showMatrix s' = showMatrix t" "isFullscreen s' = isFullscreen t"
       "isMinimized s' = isMinimized t" "terminalColor s' = terminalColor t"
    by blast
  have "onKeys h (k # ks) s = Inr s'"
    using t(1) s'(1) by simp
  with t s' show ?case
    by simp
qed

theorem C8_navigation_keeps_cursor_in_range_witness:
  "set [''ArrowUp'', ''ArrowUp'', ''ArrowUp'', ''ArrowDown''] \<subseteq> {''ArrowUp'', ''ArrowDown''}
   \<and> - 1 \<le> historyIndex browsing
   \<and> historyIndex browsing \<le> int (length (commandHistory browsing)) - 1
   \<and> (\<exists>s'. onKeys sampleHost [''ArrowUp'', ''ArrowUp'', ''ArrowUp'', ''ArrowDown''] browsing = Inr s'
          \<and> - 1 \<le> historyIndex s' \<and> historyIndex s' \<le> 1
          \<and> commandHistory s' = [''b'', ''a''])"
proof -
  have keys: "set [''ArrowUp'', ''ArrowUp'', ''ArrowUp'', ''ArrowDown''] \<subseteq> {''ArrowUp'', ''ArrowDown''}"
    by simp
  have lower: "- 1 \<le> historyIndex browsing"
    and upper: "historyIndex browsing \<le> int (length (commandHistory browsing)) - 1"
    and entries: "commandHistory browsing = [''b'', ''a'']"
    by (simp_all add: browsing_def initialState_def)
  from C8_navigation_keeps_cursor_in_range [OF keys lower upper, of sampleHost]
  obtain s' where
    "onKeys sampleHost [''ArrowUp'', ''ArrowUp'', ''ArrowUp'', ''ArrowDown''] browsing = Inr s'"
    "- 1 \<le> historyIndex s'"
    "historyIndex s' \<le> int (length (commandHistory browsing)) - 1"
    "commandHistory s' = commandHistory browsing"
    by blast
  then have "\<exists>s'. onKeys sampleHost [''ArrowUp'', ''ArrowUp'', ''ArrowUp'', ''ArrowDown''] browsing = Inr s'
          \<and> - 1 \<le> historyIndex s' \<and> historyIndex s' \<le> 1
          \<and> commandHistory s' = [''b'', ''a'']"
    by (simp add: entries)
  with keys lower upper show ?thesis
    by blast
qed

lemma arrow_up_moves:
  assumes "historyIndex s < int (length (commandHistory s)) - 1"
  shows "onKeyDown h ''ArrowUp'' s =
           Inr (s\<lparr>historyIndex := historyIndex s + 1,
                  currentCommand := at (commandHistory s) (historyIndex s + 1)\<rparr>)"
  using assms by (simp add: onKeyDown_def handleKeyPress_def Let_def)

lemma arrow_up_stays:
  assumes "\<not> historyIndex s < int (length (commandHistory s)) - 1"
  shows "onKeyDown h ''ArrowUp'' s = Inr s"
  using assms by (simp add: onKeyDown_def handleKeyPress_def)

text \<open>
  C2, as amended. With the command history \<open>[b, a]\<close> (\<open>a\<close> submitted first, then \<open>b\<close>) and the
  cursor at \<open>-1\<close>, three ArrowUp keys set the input's text to \<open>b\<close>, then to \<open>a\<close>, and the third
  changes nothing more: the state after three keys is the state after two. The newest entry
  comes first.
\<close>

theorem C2_previous_shows_newest_first:
  assumes "commandHistory s = [b, a]" and "historyIndex s = - 1"
  shows "observe currentCommand (onKeys h [''ArrowUp''] s) = Inr (Some b)
       \<and> observe currentCommand (onKeys h [''ArrowUp'', ''ArrowUp''] s) = Inr (Some a)
       \<and> observe currentCommand (onKeys h [''ArrowUp'', ''ArrowUp'', ''ArrowUp''] s) = Inr (Some a)
       \<and> onKeys h [''ArrowUp'', ''ArrowUp'', ''ArrowUp''] s = onKeys h [''ArrowUp'', ''ArrowUp''] s"
proof -
  define s1 where "s1 = s\<lparr>historyIndex := 0, currentCommand := Some b\<rparr>"
  define s2 where "s2 = s1\<lparr>historyIndex := 1, currentCommand := Some a\<rparr>"
  have k1: "onKeyDown h ''ArrowUp'' s = Inr s1"
    using arrow_up_moves [of s h] assms by (simp add: s1_def at_def)
  have k2: "onKeyDown h ''ArrowUp'' s1 = Inr s2"
    using arrow_up_moves [of s1 h] assms by (simp add: s1_def s2_def at_def)
  have k3: "onKeyDown h ''ArrowUp'' s2 = Inr s2"
    using arrow_up_stays [of s2 h] assms by (simp add: s1_def s2_def)
  have r1: "onKeys h [''ArrowUp''] s = Inr s1"
    by (simp add: k1)
  have r2: "onKeys h [''ArrowUp'', ''ArrowUp''] s = Inr s2"
    by (simp add: k1 k2)
  have r3: "onKeys h [''ArrowUp'', ''ArrowUp'', ''ArrowUp''] s = Inr s2"
    by (simp add: k1 k2 k3)
  have c1: "currentCommand s1 = Some b" and c2: "currentCommand s2 = Some a"
    by (simp_all add: s1_def s2_def)
  show ?thesis
    unfolding r1 r2 r3 by (simp add: observe_def c1 c2)
qed

theorem C2_previous_shows_newest_first_witness:
  "commandHistory browsing = [''b'', ''a''] \<and> historyIndex browsing = - 1
   \<and> observe currentCommand (onKeys sampleHost [''ArrowUp''] browsing) = Inr (Some ''b'')
   \<and> observe currentCommand (onKeys sampleHost [''ArrowUp'', ''ArrowUp''] browsing) = Inr (Some ''a'')
   \<and> observe currentCommand (onKeys sampleHost [''ArrowUp'', ''ArrowUp'', ''ArrowUp''] browsing)
       = Inr (Some ''a'')"
proof -
  have entries: "commandHistory browsing = [''b'', ''a'']" and cursor: "historyIndex browsing = - 1"
    by (simp_all add: browsing_def initialState_def)
  from C2_previous_shows_newest_first [OF entries cursor, of sampleHost] entries cursor
  show ?thesis
    by blast
qed

lemma browsing_first_up:
  "onKeyDown sampleHost ''ArrowUp'' browsing
     = Inr (browsing\<lparr>historyIndex := 0, currentCommand := Some ''b''\<rparr>)"
  using arrow_up_moves [of browsing sampleHost]
  by (simp add: browsing_def initialState_def at_def)

text \<open>
  C2 as stated fails: on the history \<open>[b, a]\<close> the first ArrowUp shows \<open>b\<close>, not \<open>a\<close>.
\<close>

theorem C2_previous_shows_oldest_first_counterexample:
  "observe currentCommand (onKeys sampleHost [''ArrowUp''] browsing) = Inr (Some ''b'')
   \<and> observe currentCommand (onKeys sampleHost [''ArrowUp''] browsing) \<noteq> Inr (Some ''a'')"
  by (simp add: browsing_first_up observe_def)

end
